theory Spec2Isabelle
  imports Complex_Main "HOL-Library.Word"
begin

section \<open>Data model of whisper-dictation.py\<close>

text \<open>
  Python strings are sequences of code points; a code point is a natural number.
  Audio chunks are \<open>bytes\<close> objects; samples are signed 16-bit integers.
  Timestamps (\<open>time.time()\<close>) and durations are taken as real numbers.
  An exception is a value carrying its description; every collaborator failure is
  an \<open>Exception\<close> subclass, which is what \<open>except Exception\<close> catches.
\<close>

type_synonym codepoint = nat
type_synonym pystr = "codepoint list"
type_synonym byte = "8 word"
type_synonym int16 = "16 word"

datatype exn = Exception string

text \<open>The lines the program prints.\<close>

datatype msg =
    Listening
  | Transcribing
  | Done
  | Transcription pystr
  | Typing_complete
  | Error_typing exn
  | No_text

text \<open>
  What the program does to the outside, in the order it does it: \<open>print\<close>,
  \<open>pykeyboard.type\<close>, \<open>time.sleep\<close>, a thread running \<open>play_tone\<close>, and
  opening and closing the microphone stream.
\<close>

datatype effect =
    Print msg
  | Key_type codepoint
  | Sleep real
  | Tone nat
  | Mic_open
  | Mic_close

text \<open>
  A thread running \<open>Recorder._record_impl\<close>: not yet at its first statement
  (\<open>Entry\<close>), in the capture loop with the frames read so far, returned, or ended
  by an exception nobody caught.
\<close>

datatype pc =
    Entry
  | Capture "byte list list"
  | Returned
  | Raised exn

datatype timer_state = Armed | Cancelled | Fired

text \<open>
  The objects of the process: the \<open>RecordingManager\<close> (\<open>mgr_\<close> fields), the
  \<open>Recorder\<close> it drives (\<open>rec_recording\<close>), every capture thread and every
  \<open>threading.Timer\<close> created so far (a thread or timer is named by its index), and
  the effects so far.
\<close>

record world =
  mgr_language :: "string option"
  mgr_max_time :: "real option"
  mgr_recording :: bool
  mgr_timer :: "nat option"
  rec_recording :: bool
  threads :: "(string option \<times> pc) list"
  timers :: "(real \<times> timer_state) list"
  out :: "effect list"

definition emit :: "effect \<Rightarrow> world \<Rightarrow> world" where
  "emit e w = w\<lparr>out := out w @ [e]\<rparr>"

text \<open>\<open>RecordingManager.__init__\<close> over a fresh \<open>Recorder\<close>.\<close>

definition RecordingManager_init :: "string option \<Rightarrow> real option \<Rightarrow> world" where
  "RecordingManager_init language max_time =
     \<lparr>mgr_language = language, mgr_max_time = max_time, mgr_recording = False,
      mgr_timer = None, rec_recording = False, threads = [], timers = [], out = []\<rparr>"

section \<open>Recorder: start and stop\<close>

text \<open>
  \<open>Recorder.start\<close> creates the thread and starts it; nothing else. The thread's
  first statement, \<open>self.recording = True\<close>, runs when the thread is first scheduled.
\<close>

definition Recorder_start :: "string option \<Rightarrow> world \<Rightarrow> world" where
  "Recorder_start language w = w\<lparr>threads := threads w @ [(language, Entry)]\<rparr>"

definition Recorder_stop :: "world \<Rightarrow> world" where
  "Recorder_stop w = w\<lparr>rec_recording := False\<rparr>"

section \<open>RecordingManager\<close>

text \<open>\<open>Timer.cancel()\<close> stops a timer that has not fired; otherwise nothing changes.\<close>

definition timer_cancel :: "nat \<Rightarrow> world \<Rightarrow> world" where
  "timer_cancel i w =
     (if i < length (timers w) \<and> snd (timers w ! i) = Armed
      then w\<lparr>timers := (timers w)[i := (fst (timers w ! i), Cancelled)]\<rparr>
      else w)"

definition timer_start :: "real \<Rightarrow> world \<Rightarrow> world" where
  "timer_start d w =
     w\<lparr>mgr_timer := Some (length (timers w)), timers := timers w @ [(d, Armed)]\<rparr>"

definition RecordingManager_start :: "world \<Rightarrow> world" where
  "RecordingManager_start w =
     (if \<not> mgr_recording w then
        let w1 = emit (Print Listening) w;
            w2 = w1\<lparr>mgr_recording := True\<rparr>;
            w3 = Recorder_start (mgr_language w2) w2
        in (case mgr_max_time w3 of
              None \<Rightarrow> w3
            | Some d \<Rightarrow> timer_start d w3)
      else w)"

definition RecordingManager_stop :: "world \<Rightarrow> world" where
  "RecordingManager_stop w =
     (if mgr_recording w then
        let w1 = (case mgr_timer w of None \<Rightarrow> w | Some i \<Rightarrow> timer_cancel i w);
            w2 = emit (Print Transcribing) w1;
            w3 = w2\<lparr>mgr_recording := False\<rparr>;
            w4 = Recorder_stop w3
        in emit (Print Done) w4
      else w)"

definition RecordingManager_toggle :: "world \<Rightarrow> world" where
  "RecordingManager_toggle w =
     (if mgr_recording w then RecordingManager_stop w else RecordingManager_start w)"

text \<open>A call of one of the three methods, as a value.\<close>

datatype call = Start | Stop | Toggle

fun perform :: "world \<Rightarrow> call \<Rightarrow> world" where
  "perform w Start = RecordingManager_start w"
| "perform w Stop = RecordingManager_stop w"
| "perform w Toggle = RecordingManager_toggle w"

text \<open>
  The transition rules in the specification's words, on the flag alone: \<open>start\<close> is
  a no-op if already active, \<open>stop\<close> is a no-op if not active, \<open>toggle\<close> calls
  \<open>stop\<close> if recording and \<open>start\<close> otherwise.
\<close>

definition spec_start :: "bool \<Rightarrow> bool" where
  "spec_start active = (if active then active else True)"

definition spec_stop :: "bool \<Rightarrow> bool" where
  "spec_stop active = (if \<not> active then active else False)"

definition spec_toggle :: "bool \<Rightarrow> bool" where
  "spec_toggle active = (if active then spec_stop active else spec_start active)"

fun spec_transition :: "bool \<Rightarrow> call \<Rightarrow> bool" where
  "spec_transition active Start = spec_start active"
| "spec_transition active Stop = spec_stop active"
| "spec_transition active Toggle = spec_toggle active"

section \<open>The pipeline: Recorder._record_impl\<close>

subsection \<open>Assembling the audio buffer\<close>

text \<open>
  \<open>np.frombuffer(b, dtype=np.int16)\<close>: two bytes per sample, low byte first (the
  byte order of the machines the program runs on); a buffer of odd size raises
  \<open>ValueError\<close>.
\<close>

definition int16_le :: "byte \<Rightarrow> byte \<Rightarrow> int16" where
  "int16_le lo hi = word_of_nat (unat lo + 256 * unat hi)"

fun frombuffer_int16 :: "byte list \<Rightarrow> exn + int16 list" where
  "frombuffer_int16 [] = Inr []"
| "frombuffer_int16 [b] =
     Inl (Exception ''ValueError: buffer size must be a multiple of element size'')"
| "frombuffer_int16 (lo # hi # bs) =
     (case frombuffer_int16 bs of
        Inl e \<Rightarrow> Inl e
      | Inr xs \<Rightarrow> Inr (int16_le lo hi # xs))"

text \<open>
  \<open>audio_data.astype(np.float32) / 32768.0\<close>. Every 16-bit integer is a float32,
  and dividing a float32 of that size by the power of two 32768 is exact, so the
  float32 result is the real number \<open>s / 32768\<close>.
\<close>

definition to_fp32 :: "int16 \<Rightarrow> real" where
  "to_fp32 s = real_of_int (sint s) / 32768"

text \<open>Lines 103 and 104: \<open>frames\<close> is the list of chunks in the order read.\<close>

definition audio_data_fp32 :: "byte list list \<Rightarrow> exn + real list" where
  "audio_data_fp32 frames =
     (case frombuffer_int16 (concat frames) of
        Inl e \<Rightarrow> Inl e
      | Inr audio_data \<Rightarrow> Inr (map to_fp32 audio_data))"

text \<open>
  What the audio device hands to \<open>stream.read\<close> for a chunk of 16-bit samples
  (format \<open>paInt16\<close>, one channel): each sample as two bytes, low byte first.
\<close>

definition sample_bytes :: "int16 \<Rightarrow> byte list" where
  "sample_bytes s = [ucast s, ucast (drop_bit 8 s)]"

definition pcm_bytes :: "int16 list \<Rightarrow> byte list" where
  "pcm_bytes c = concat (map sample_bytes c)"

subsection \<open>Transcribing\<close>

text \<open>
  \<open>str.lstrip()\<close> without argument removes leading whitespace, which for a Python
  string is these code points.
\<close>

definition py_isspace :: "codepoint \<Rightarrow> bool" where
  "py_isspace c =
     ((9 \<le> c \<and> c \<le> 13) \<or> (28 \<le> c \<and> c \<le> 32) \<or> c = 133 \<or> c = 160 \<or> c = 5760
      \<or> (8192 \<le> c \<and> c \<le> 8202) \<or> c = 8232 \<or> c = 8233 \<or> c = 8239 \<or> c = 8287
      \<or> c = 12288)"

definition lstrip :: "pystr \<Rightarrow> pystr" where
  "lstrip s = dropWhile py_isspace s"

text \<open>
  \<open>SpeechTranscriber.transcribe\<close>. The model is a collaborator: \<open>model\<close> gives the
  \<open>"text"\<close> of its result, or the exception it raises. The method has no
  \<open>try\<close>: an exception of the model leaves it before the \<open>print\<close>.
\<close>

definition SpeechTranscriber_transcribe ::
  "(real list \<Rightarrow> string option \<Rightarrow> exn + pystr) \<Rightarrow> real list \<Rightarrow> string option
     \<Rightarrow> (exn + pystr) \<times> effect list" where
  "SpeechTranscriber_transcribe model audio_data language =
     (case model audio_data language of
        Inl e \<Rightarrow> (Inl e, [])
      | Inr result_text \<Rightarrow>
          (let transcription_text = lstrip result_text
           in (Inr transcription_text, [Print (Transcription transcription_text)])))"

subsection \<open>Typing the transcription\<close>

text \<open>
  The \<open>for\<close> loop of lines 110 to 112. The keyboard is a collaborator:
  \<open>keyboard i c\<close> is the exception \<open>pykeyboard.type\<close> raises on the \<open>i\<close>-th
  element \<open>c\<close>, if it raises. The loop returns the effects up to the end or the
  exception, and the exception.
\<close>

fun type_loop ::
  "(nat \<Rightarrow> codepoint \<Rightarrow> exn option) \<Rightarrow> nat \<Rightarrow> pystr \<Rightarrow> effect list \<times> exn option" where
  "type_loop keyboard i [] = ([], None)"
| "type_loop keyboard i (element # rest) =
     (case keyboard i element of
        Some e \<Rightarrow> ([], Some e)
      | None \<Rightarrow>
          (case type_loop keyboard (Suc i) rest of
             (fx, r) \<Rightarrow> (Key_type element # Sleep 0.0025 # fx, r)))"

text \<open>Lines 108 to 117.\<close>

definition type_transcription ::
  "(nat \<Rightarrow> codepoint \<Rightarrow> exn option) \<Rightarrow> pystr \<Rightarrow> effect list" where
  "type_transcription keyboard transcription =
     (if transcription \<noteq> [] then
        (case type_loop keyboard 0 transcription of
           (fx, None) \<Rightarrow> fx @ [Print Typing_complete]
         | (fx, Some e) \<Rightarrow> fx @ [Print (Error_typing e)])
      else [Print No_text])"

subsection \<open>The thread\<close>

text \<open>
  What the collaborators answer while a thread runs one step: whether opening the
  input stream raises, what \<open>stream.read\<close> gives, the model and the keyboard.
\<close>

record io =
  open_raises :: "exn option"
  read_gives :: "exn + byte list"
  model :: "real list \<Rightarrow> string option \<Rightarrow> exn + pystr"
  keyboard :: "nat \<Rightarrow> codepoint \<Rightarrow> exn option"

text \<open>
  Lines 99 to 117, run once the loop has seen \<open>self.recording\<close> false: the effects
  and how the thread ends.
\<close>

definition record_tail :: "io \<Rightarrow> string option \<Rightarrow> byte list list \<Rightarrow> effect list \<times> pc" where
  "record_tail env language frames =
     (case audio_data_fp32 frames of
        Inl e \<Rightarrow> ([Mic_close], Raised e)
      | Inr audio \<Rightarrow>
          (case SpeechTranscriber_transcribe (model env) audio language of
             (Inl e, fx) \<Rightarrow> (Mic_close # fx, Raised e)
           | (Inr transcription, fx) \<Rightarrow>
               (Mic_close # fx @ type_transcription (keyboard env) transcription, Returned)))"

definition set_pc :: "nat \<Rightarrow> pc \<Rightarrow> world \<Rightarrow> world" where
  "set_pc tid p w = w\<lparr>threads := (threads w)[tid := (fst (threads w ! tid), p)]\<rparr>"

text \<open>
  One step of thread \<open>tid\<close>. From \<open>Entry\<close>: lines 85 to 93. In the loop: the test
  of \<open>self.recording\<close>, then either one read (lines 96, 97) or the rest of the
  function. A thread that has ended does nothing.
\<close>

definition thread_step :: "nat \<Rightarrow> io \<Rightarrow> world \<Rightarrow> world" where
  "thread_step tid env w =
     (if tid < length (threads w) then
        (case threads w ! tid of
           (language, Entry) \<Rightarrow>
             (let w1 = w\<lparr>rec_recording := True\<rparr>
              in (case open_raises env of
                    Some e \<Rightarrow> set_pc tid (Raised e) w1
                  | None \<Rightarrow> set_pc tid (Capture []) (emit Mic_open w1)))
         | (language, Capture frames) \<Rightarrow>
             (if rec_recording w then
                (case read_gives env of
                   Inl e \<Rightarrow> set_pc tid (Raised e) w
                 | Inr data \<Rightarrow> set_pc tid (Capture (frames @ [data])) w)
              else
                (case record_tail env language frames of
                   (fx, p) \<Rightarrow> set_pc tid p (w\<lparr>out := out w @ fx\<rparr>)))
         | (language, Returned) \<Rightarrow> w
         | (language, Raised e) \<Rightarrow> w)
      else w)"

subsection \<open>Schedules\<close>

text \<open>
  What can happen to the process, one at a time: the listener thread calls a method
  of the manager, an armed timer fires and calls \<open>stop\<close>, a capture thread runs
  one step.
\<close>

datatype event =
    Calls call
  | Timer_fires nat
  | Thread_runs nat io

definition timer_fire :: "nat \<Rightarrow> world \<Rightarrow> world" where
  "timer_fire i w =
     (if i < length (timers w) \<and> snd (timers w ! i) = Armed
      then RecordingManager_stop (w\<lparr>timers := (timers w)[i := (fst (timers w ! i), Fired)]\<rparr>)
      else w)"

fun step :: "world \<Rightarrow> event \<Rightarrow> world" where
  "step w (Calls c) = perform w c"
| "step w (Timer_fires i) = timer_fire i w"
| "step w (Thread_runs tid env) = thread_step tid env w"

definition run :: "world \<Rightarrow> event list \<Rightarrow> world" where
  "run w evs = foldl step w evs"

text \<open>The threads that are inside the capture loop.\<close>

definition capturing :: "world \<Rightarrow> nat list" where
  "capturing w =
     filter (\<lambda>tid. case snd (threads w ! tid) of Capture frames \<Rightarrow> True | _ \<Rightarrow> False)
       [0 ..< length (threads w)]"

section \<open>The key listeners\<close>

text \<open>
  A key of \<open>pynput\<close>: a member of \<open>keyboard.Key\<close> by its name, or a
  \<open>KeyCode\<close> by its character.
\<close>

datatype key = Key string | KeyCode string

text \<open>
  What a handler does besides updating its own fields: it calls a method of the
  recording manager, or starts a thread that plays a tone of a frequency. A handler
  returns the listener after the event with what it did, in order.
\<close>

datatype action = Invoke call | Play_tone nat

fun act :: "world \<Rightarrow> action \<Rightarrow> world" where
  "act w (Invoke c) = perform w c"
| "act w (Play_tone frequency) = emit (Tone frequency) w"

definition deliver :: "'l \<times> action list \<Rightarrow> world \<Rightarrow> 'l \<times> world" where
  "deliver r w = (fst r, foldl act w (snd r))"

subsection \<open>GlobalKeyListener\<close>

record GlobalKeyListener =
  key1 :: key
  key2 :: key
  key1_pressed :: bool
  key2_pressed :: bool

definition GlobalKeyListener_init :: "key \<Rightarrow> key \<Rightarrow> GlobalKeyListener" where
  "GlobalKeyListener_init k1 k2 =
     \<lparr>key1 = k1, key2 = k2, key1_pressed = False, key2_pressed = False\<rparr>"

definition GlobalKeyListener_on_key_press ::
  "key \<Rightarrow> GlobalKeyListener \<Rightarrow> GlobalKeyListener \<times> action list" where
  "GlobalKeyListener_on_key_press k l =
     (let l1 = (if k = key1 l then l\<lparr>key1_pressed := True\<rparr>
                else if k = key2 l then l\<lparr>key2_pressed := True\<rparr>
                else l)
      in (l1, if key1_pressed l1 \<and> key2_pressed l1 then [Invoke Toggle] else []))"

definition GlobalKeyListener_on_key_release ::
  "key \<Rightarrow> GlobalKeyListener \<Rightarrow> GlobalKeyListener \<times> action list" where
  "GlobalKeyListener_on_key_release k l =
     (if k = key1 l then (l\<lparr>key1_pressed := False\<rparr>, [])
      else if k = key2 l then (l\<lparr>key2_pressed := False\<rparr>, [])
      else (l, []))"

text \<open>A stream of key events of the chord listener, and everything it does on it.\<close>

datatype key_event = Press key | Release key

fun GlobalKeyListener_event ::
  "GlobalKeyListener \<times> action list \<Rightarrow> key_event \<Rightarrow> GlobalKeyListener \<times> action list" where
  "GlobalKeyListener_event (l, sofar) (Press k) =
     (case GlobalKeyListener_on_key_press k l of (l', acts) \<Rightarrow> (l', sofar @ acts))"
| "GlobalKeyListener_event (l, sofar) (Release k) =
     (case GlobalKeyListener_on_key_release k l of (l', acts) \<Rightarrow> (l', sofar @ acts))"

definition GlobalKeyListener_events ::
  "GlobalKeyListener \<Rightarrow> key_event list \<Rightarrow> GlobalKeyListener \<times> action list" where
  "GlobalKeyListener_events l evs = foldl GlobalKeyListener_event (l, []) evs"

subsection \<open>DoubleCommandKeyListener\<close>

record DoubleCommandKeyListener =
  dck_key :: key
  dck_last_press_time :: real

definition DoubleCommandKeyListener_init :: DoubleCommandKeyListener where
  "DoubleCommandKeyListener_init = \<lparr>dck_key = Key ''cmd_r'', dck_last_press_time = 0\<rparr>"

text \<open>
  \<open>current_time\<close> is what \<open>time.time()\<close> returns in the handler; \<open>w\<close> is read
  for \<open>self.recording_manager.recording\<close>.
\<close>

definition DoubleCommandKeyListener_on_key_press ::
  "key \<Rightarrow> real \<Rightarrow> world \<Rightarrow> DoubleCommandKeyListener
     \<Rightarrow> DoubleCommandKeyListener \<times> action list" where
  "DoubleCommandKeyListener_on_key_press k current_time w l =
     (if k = dck_key l then
        (l\<lparr>dck_last_press_time := current_time\<rparr>,
         if \<not> mgr_recording w \<and> current_time - dck_last_press_time l < 0.5
         then [Invoke Start]
         else if mgr_recording w then [Invoke Stop]
         else [])
      else (l, []))"

definition DoubleCommandKeyListener_on_key_release ::
  "key \<Rightarrow> DoubleCommandKeyListener \<Rightarrow> DoubleCommandKeyListener \<times> action list" where
  "DoubleCommandKeyListener_on_key_release k l = (l, [])"

subsection \<open>PushToTalkListener\<close>

record PushToTalkListener =
  ptt_key :: key
  ptt_active :: bool
  ptt_last_press_time :: real

definition PushToTalkListener_init :: PushToTalkListener where
  "PushToTalkListener_init =
     \<lparr>ptt_key = Key ''cmd_l'', ptt_active = False, ptt_last_press_time = 0\<rparr>"

definition PushToTalkListener_on_key_press ::
  "key \<Rightarrow> real \<Rightarrow> PushToTalkListener \<Rightarrow> PushToTalkListener \<times> action list" where
  "PushToTalkListener_on_key_press k current_time l =
     (if k = ptt_key l then
        (if \<not> ptt_active l \<and> current_time - ptt_last_press_time l < 0.5
         then (l\<lparr>ptt_active := True, ptt_last_press_time := current_time\<rparr>,
               [Play_tone 300, Invoke Start])
         else (l\<lparr>ptt_last_press_time := current_time\<rparr>, []))
      else (l, []))"

definition PushToTalkListener_on_key_release ::
  "key \<Rightarrow> PushToTalkListener \<Rightarrow> PushToTalkListener \<times> action list" where
  "PushToTalkListener_on_key_release k l =
     (if k = ptt_key l \<and> ptt_active l
      then (l\<lparr>ptt_active := False\<rparr>, [Play_tone 600, Invoke Stop])
      else (l, []))"

section \<open>Auxiliary definitions for the statements\<close>

text \<open>The keystrokes of a string: each element typed, then the pause of 2.5 ms.\<close>

definition keystrokes :: "pystr \<Rightarrow> effect list" where
  "keystrokes s = concat (map (\<lambda>c. [Key_type c, Sleep 0.0025]) s)"

text \<open>
  Collaborators that do not fail: the stream opens, a read gives one silent sample,
  the model answers \<open>" hi"\<close>, the keyboard types every element.
\<close>

definition env_ok :: io where
  "env_ok = \<lparr>open_raises = None, read_gives = Inr (pcm_bytes [0]),
     model = (\<lambda>audio language. Inr [32, 104, 105]),
     keyboard = (\<lambda>i c. None)\<rparr>"

text \<open>
  Collaborators that fail: the input stream cannot be opened, a read raises, the
  keyboard raises on the second element.
\<close>

definition env_open_fails :: io where
  "env_open_fails = env_ok\<lparr>open_raises := Some (Exception ''OSError: no input device'')\<rparr>"

definition env_read_fails :: io where
  "env_read_fails = env_ok\<lparr>read_gives := Inl (Exception ''OSError: input overflowed'')\<rparr>"

definition env_type_fails :: io where
  "env_type_fails =
     env_ok\<lparr>keyboard := \<lambda>i c. if i = 1 then Some (Exception ''InvalidCharacterException'') else None\<rparr>"

section \<open>The session state machine\<close>

lemma mgr_recording_start [simp]: "mgr_recording (RecordingManager_start w) = True"
  by (simp add: RecordingManager_start_def Recorder_start_def timer_start_def emit_def
      Let_def split: option.split)

lemma mgr_recording_timer_cancel [simp]:
  "mgr_recording (timer_cancel i w) = mgr_recording w"
  by (simp add: timer_cancel_def)

lemma mgr_recording_stop [simp]: "mgr_recording (RecordingManager_stop w) = False"
  by (simp add: RecordingManager_stop_def Recorder_stop_def emit_def Let_def
      split: option.split)

lemma mgr_recording_perform:
  "mgr_recording (perform w c) = spec_transition (mgr_recording w) c"
  by (cases c) (simp_all add: RecordingManager_toggle_def spec_start_def spec_stop_def
      spec_toggle_def)

lemma mgr_recording_calls:
  "mgr_recording (foldl perform w cs) = foldl spec_transition (mgr_recording w) cs"
proof (induction cs arbitrary: w)
  case Nil
  show ?case by simp
next
  case (Cons c cs)
  show ?case by (simp add: Cons.IH mgr_recording_perform)
qed

text \<open>
  C3. For every finite sequence of \<open>start()\<close>/\<open>stop()\<close>/\<open>toggle()\<close> calls, the
  manager's \<open>recording\<close> flag after the whole sequence, and after each of its
  prefixes (that is, after each call), is the fold of the specification's
  transition rules over the calls made so far; \<open>start()\<close> changes nothing at all
  when already recording, \<open>stop()\<close> changes nothing at all when idle, and
  \<open>toggle()\<close> is \<open>stop()\<close> when recording and \<open>start()\<close> when idle.
\<close>

theorem C3_flag_is_fold:
  "mgr_recording (foldl perform w cs) = foldl spec_transition (mgr_recording w) cs
   \<and> (\<forall>n. mgr_recording (foldl perform w (take n cs))
          = foldl spec_transition (mgr_recording w) (take n cs))
   \<and> (mgr_recording w \<longrightarrow> RecordingManager_start w = w)
   \<and> (\<not> mgr_recording w \<longrightarrow> RecordingManager_stop w = w)
   \<and> RecordingManager_toggle w =
       (if mgr_recording w then RecordingManager_stop w else RecordingManager_start w)"
  by (simp add: mgr_recording_calls RecordingManager_start_def RecordingManager_stop_def
      RecordingManager_toggle_def)

theorem C3_flag_is_fold_witness:
  "mgr_recording (foldl perform (RecordingManager_init None (Some 30)) [Start, Start, Toggle, Stop, Toggle])
     = foldl spec_transition False [Start, Start, Toggle, Stop, Toggle]
   \<and> foldl spec_transition False [Start, Start, Toggle, Stop, Toggle] = True
   \<and> foldl spec_transition False [Start, Start, Toggle] = False
   \<and> RecordingManager_stop (RecordingManager_init None (Some 30)) = RecordingManager_init None (Some 30)
   \<and> RecordingManager_start (RecordingManager_start (RecordingManager_init None (Some 30)))
       = RecordingManager_start (RecordingManager_init None (Some 30))"
  using C3_flag_is_fold [of "RecordingManager_init None (Some 30)" "[Start, Start, Toggle, Stop, Toggle]"]
    C3_flag_is_fold [of "RecordingManager_start (RecordingManager_init None (Some 30))" "[]"]
  by (simp add: RecordingManager_init_def spec_start_def spec_stop_def spec_toggle_def)

section \<open>The audio buffer\<close>

lemma int16_le_sample: "int16_le (ucast s) (ucast (drop_bit 8 s)) = (s::int16)"
proof -
  have lt: "unat s < 65536" using unsigned_less [of s, where 'a=nat] by simp
  have a: "unat (ucast s :: byte) = unat s mod 256"
    by (simp add: unsigned_ucast_eq take_bit_eq_mod)
  have "unat s div 256 < 256" using lt by simp
  moreover have "unat (drop_bit 8 s) = unat s div 256"
    by (simp only: unat_drop_bit_eq) (simp add: drop_bit_eq_div)
  moreover have "unat (ucast (drop_bit 8 s) :: byte) = unat (drop_bit 8 s) mod 256"
    by (simp only: unsigned_ucast_eq take_bit_eq_mod) simp
  ultimately have b: "unat (ucast (drop_bit 8 s) :: byte) = unat s div 256"
    by (simp only: mod_less)
  show ?thesis by (simp add: int16_le_def a b)
qed

lemma frombuffer_pcm: "frombuffer_int16 (pcm_bytes c) = Inr c"
  by (induction c) (simp_all add: pcm_bytes_def sample_bytes_def int16_le_sample)

lemma concat_pcm: "concat (map pcm_bytes cs) = pcm_bytes (concat cs)"
  by (induction cs) (simp_all add: pcm_bytes_def)

lemma to_fp32_range: "- 1 \<le> to_fp32 s \<and> to_fp32 s \<le> 1"
proof -
  have "- 32768 \<le> sint s" using sint_ge [of s] by simp
  moreover have "sint s < 32768" using sint_lt [of s] by simp
  ultimately have "- 32768 \<le> real_of_int (sint s) \<and> real_of_int (sint s) \<le> 32768"
    by linarith
  then show ?thesis unfolding to_fp32_def by (simp del: of_int_sint)
qed

lemma frombuffer_length:
  "frombuffer_int16 bs = Inr xs \<Longrightarrow> 2 * length xs = length bs"
  by (induction bs arbitrary: xs rule: frombuffer_int16.induct)
    (auto split: sum.splits)

lemma audio_pcm:
  "audio_data_fp32 (map pcm_bytes chunks) = Inr (map to_fp32 (concat chunks))"
  by (simp add: audio_data_fp32_def concat_pcm frombuffer_pcm)

text \<open>
  C8. At the end of a session the chunks are concatenated in the order they were
  read and every 16-bit sample \<open>s\<close> becomes the float \<open>s * (1 / 32768)\<close>. No
  chunk gives the empty array. For chunks of 16-bit samples as the device delivers
  them, whatever the samples are, the conversion succeeds, the array has as many
  elements as there are samples in all chunks, and every element lies between
  \<open>-1\<close> and \<open>1\<close>. For any chunks of bytes on which the conversion succeeds, the
  array has half as many elements as there are bytes, each between \<open>-1\<close> and
  \<open>1\<close>.
\<close>

theorem C8_audio_buffer:
  "audio_data_fp32 [] = Inr []
   \<and> audio_data_fp32 (map pcm_bytes chunks)
       = Inr (map (\<lambda>s. real_of_int (sint s) * (1 / 32768)) (concat chunks))
   \<and> (\<forall>buf. audio_data_fp32 (map pcm_bytes chunks) = Inr buf \<longrightarrow>
         length buf = sum_list (map length chunks)
         \<and> (\<forall>x \<in> set buf. - 1 \<le> x \<and> x \<le> 1))
   \<and> (\<forall>buf. audio_data_fp32 frames = Inr buf \<longrightarrow>
         2 * length buf = sum_list (map length frames)
         \<and> (\<forall>x \<in> set buf. - 1 \<le> x \<and> x \<le> 1))"
proof -
  have empty: "audio_data_fp32 [] = Inr []"
    by (simp add: audio_data_fp32_def)
  have scale: "to_fp32 = (\<lambda>s. real_of_int (sint s) * (1 / 32768))"
    by (rule ext) (simp add: to_fp32_def del: of_int_sint)
  have conv: "audio_data_fp32 (map pcm_bytes chunks)
       = Inr (map (\<lambda>s. real_of_int (sint s) * (1 / 32768)) (concat chunks))"
    using audio_pcm [of chunks] by (simp only: scale)
  have len: "length (map to_fp32 (concat chunks)) = sum_list (map length chunks)"
    by (simp add: length_concat)
  have range: "\<forall>x \<in> set (map to_fp32 xs). - 1 \<le> x \<and> x \<le> 1" for xs
    using to_fp32_range by auto
  have raw: "2 * length buf = sum_list (map length frames)
         \<and> (\<forall>x \<in> set buf. - 1 \<le> x \<and> x \<le> 1)"
    if "audio_data_fp32 frames = Inr buf" for buf
  proof -
    from that obtain xs where xs: "frombuffer_int16 (concat frames) = Inr xs"
      and buf: "buf = map to_fp32 xs"
      by (auto simp: audio_data_fp32_def split: sum.splits)
    have "2 * length xs = length (concat frames)" using xs by (rule frombuffer_length)
    then show ?thesis using range [of xs] by (simp add: buf length_concat)
  qed
  have pcm: "length buf = sum_list (map length chunks)
         \<and> (\<forall>x \<in> set buf. - 1 \<le> x \<and> x \<le> 1)"
    if "audio_data_fp32 (map pcm_bytes chunks) = Inr buf" for buf
  proof -
    from that have "buf = map to_fp32 (concat chunks)" by (simp add: audio_pcm)
    then show ?thesis using len range [of "concat chunks"] by simp
  qed
  show ?thesis using empty conv raw pcm by blast
qed

theorem C8_audio_buffer_witness:
  "audio_data_fp32 (map pcm_bytes [[32767, 0], [- 32768]]) = Inr [32767 / 32768, 0, - 1]
   \<and> length [32767 / 32768, 0, - 1 :: real] = sum_list (map length [[32767, 0], [- 32768 :: int16]])
   \<and> audio_data_fp32 [[255, 127], [0, 128]] = Inr [32767 / 32768, - 1]"
  using C8_audio_buffer [of "[[32767, 0], [- 32768]]" "[[255, 127], [0, 128]]"]
  by (simp add: audio_data_fp32_def int16_le_def to_fp32_def)

section \<open>Transcribing and typing\<close>

lemma type_loop_ok:
  "(\<And>j. j < length s \<Longrightarrow> kb (i + j) (s ! j) = None)
   \<Longrightarrow> type_loop kb i s = (keystrokes s, None)"
proof (induction s arbitrary: i)
  case Nil
  show ?case by (simp add: keystrokes_def)
next
  case (Cons c s)
  have "kb i c = None" using Cons.prems [of 0] by simp
  moreover have "type_loop kb (Suc i) s = (keystrokes s, None)"
  proof (rule Cons.IH)
    fix j assume "j < length s"
    then show "kb (Suc i + j) (s ! j) = None" using Cons.prems [of "Suc j"] by simp
  qed
  ultimately show ?case by (simp add: keystrokes_def)
qed

lemma type_loop_fails:
  "k < length s \<Longrightarrow> (\<And>j. j < k \<Longrightarrow> kb (i + j) (s ! j) = None)
   \<Longrightarrow> kb (i + k) (s ! k) = Some e
   \<Longrightarrow> type_loop kb i s = (keystrokes (take k s), Some e)"
proof (induction s arbitrary: i k)
  case Nil
  then show ?case by simp
next
  case (Cons c s)
  show ?case
  proof (cases k)
    case 0
    then show ?thesis using Cons.prems by (simp add: keystrokes_def)
  next
    case (Suc k')
    have "kb i c = None" using Cons.prems(2) [of 0] Suc by simp
    moreover have "type_loop kb (Suc i) s = (keystrokes (take k' s), Some e)"
    proof (rule Cons.IH)
      show "k' < length s" using Cons.prems(1) Suc by simp
      show "kb (Suc i + k') (s ! k') = Some e" using Cons.prems(3) Suc by simp
      fix j assume "j < k'"
      then show "kb (Suc i + j) (s ! j) = None" using Cons.prems(2) [of "Suc j"] Suc by simp
    qed
    ultimately show ?thesis using Suc by (simp add: keystrokes_def)
  qed
qed

lemma record_tail_typed:
  "audio_data_fp32 frames = Inr a \<Longrightarrow> model env a language = Inr r
   \<Longrightarrow> record_tail env language frames
       = (Mic_close # Print (Transcription (lstrip r))
            # type_transcription (keyboard env) (lstrip r), Returned)"
  by (simp add: record_tail_def SpeechTranscriber_transcribe_def Let_def)

text \<open>
  C9. Typing the empty transcription presses no key and waits for nothing: it only
  prints that there is no text. Typing a non-empty transcription on a keyboard that
  accepts every element types the elements one at a time, in order, each followed by
  a pause of 2.5 ms, then prints that typing is complete. If the keyboard raises at
  element \<open>k\<close> and not before, the first \<open>k\<close> elements have been typed, each
  followed by its pause, and stay typed; the error is printed, nothing more is
  typed, and the function returns normally whatever the keyboard did.
\<close>

theorem C9_emission:
  "type_transcription kb [] = [Print No_text]
   \<and> (s \<noteq> [] \<and> (\<forall>j < length s. kb j (s ! j) = None) \<longrightarrow>
        type_transcription kb s
          = concat (map (\<lambda>c. [Key_type c, Sleep 0.0025]) s) @ [Print Typing_complete])
   \<and> (k < length s \<and> (\<forall>j < k. kb j (s ! j) = None) \<and> kb k (s ! k) = Some e \<longrightarrow>
        type_transcription kb s
          = concat (map (\<lambda>c. [Key_type c, Sleep 0.0025]) (take k s)) @ [Print (Error_typing e)])
   \<and> (audio_data_fp32 frames = Inr a \<and> model env a language = Inr r \<longrightarrow>
        record_tail env language frames
          = (Mic_close # Print (Transcription (lstrip r))
               # type_transcription (keyboard env) (lstrip r), Returned))"
proof -
  have empty: "type_transcription kb [] = [Print No_text]"
    by (simp add: type_transcription_def)
  have ok: "type_transcription kb s = keystrokes s @ [Print Typing_complete]"
    if "s \<noteq> []" "\<forall>j < length s. kb j (s ! j) = None"
  proof -
    have "type_loop kb 0 s = (keystrokes s, None)"
      by (rule type_loop_ok) (use that in simp)
    then show ?thesis using that(1) by (simp add: type_transcription_def)
  qed
  have bad: "type_transcription kb s = keystrokes (take k s) @ [Print (Error_typing e)]"
    if "k < length s" "\<forall>j < k. kb j (s ! j) = None" "kb k (s ! k) = Some e"
  proof -
    have "type_loop kb 0 s = (keystrokes (take k s), Some e)"
      by (rule type_loop_fails) (use that in simp_all)
    moreover have "s \<noteq> []" using that(1) by auto
    ultimately show ?thesis by (simp add: type_transcription_def)
  qed
  show ?thesis
    using empty ok bad record_tail_typed [of frames a env language r]
    unfolding keystrokes_def by blast
qed

theorem C9_emission_witness:
  "type_transcription (\<lambda>i c. None) [104, 105]
     = [Key_type 104, Sleep 0.0025, Key_type 105, Sleep 0.0025, Print Typing_complete]
   \<and> type_transcription (\<lambda>i c. if i = 1 then Some (Exception ''InvalidCharacterException'') else None)
        [104, 105, 33]
     = [Key_type 104, Sleep 0.0025, Print (Error_typing (Exception ''InvalidCharacterException''))]
   \<and> record_tail env_ok None [pcm_bytes [0]]
     = ([Mic_close, Print (Transcription [104, 105]), Key_type 104, Sleep 0.0025,
         Key_type 105, Sleep 0.0025, Print Typing_complete], Returned)"
  using C9_emission [of "\<lambda>i c. None" "[104, 105]" 0 undefined "[pcm_bytes [0]]" "[0]" env_ok None "[32, 104, 105]"]
    C9_emission [of "\<lambda>i c. if i = 1 then Some (Exception ''InvalidCharacterException'') else None"
       "[104, 105, 33]" 1 "Exception ''InvalidCharacterException''" "[]" "[]" env_ok None "[]"]
  by (simp add: env_ok_def audio_data_fp32_def pcm_bytes_def sample_bytes_def int16_le_def
      to_fp32_def lstrip_def py_isspace_def type_transcription_def)

text \<open>
  C4. What the code does when the model raises \<open>e\<close> on the audio of any chunks:
  the stream is closed and the exception leaves \<open>_record_impl\<close> uncaught. The
  program prints nothing of its own for it (what appears is the interpreter's report
  of an exception that ended a thread), the transcription is not treated as empty
  (the line for no text is not printed), and the thread ends by the exception.
\<close>

theorem C4_transcription_error_escapes:
  "record_tail (env\<lparr>model := \<lambda>audio language. Inl e\<rparr>) lang (map pcm_bytes chunks)
     = ([Mic_close], Raised e)"
  by (simp add: record_tail_def audio_pcm SpeechTranscriber_transcribe_def)

section \<open>The key listeners' behaviour\<close>

text \<open>
  C5. On a press of the designated key: while the manager is idle, \<open>start()\<close> is
  called if the time since the previous press of the key is under 0.5 s, and nothing
  is called otherwise; while the manager is recording, \<open>stop()\<close> is called,
  whatever the times; in every case the time of the press is stored as the last
  press time. A press of another key changes nothing and calls nothing. After the
  press the manager records exactly if it was idle and the press came under 0.5 s.
\<close>

theorem C5_double_tap:
  "(\<not> mgr_recording w \<longrightarrow>
      snd (DoubleCommandKeyListener_on_key_press (dck_key l) now w l)
        = (if now - dck_last_press_time l < 0.5 then [Invoke Start] else []))
   \<and> (mgr_recording w \<longrightarrow>
      snd (DoubleCommandKeyListener_on_key_press (dck_key l) now w l) = [Invoke Stop])
   \<and> fst (DoubleCommandKeyListener_on_key_press (dck_key l) now w l)
        = l\<lparr>dck_last_press_time := now\<rparr>
   \<and> (k \<noteq> dck_key l \<longrightarrow> DoubleCommandKeyListener_on_key_press k now w l = (l, []))
   \<and> mgr_recording (snd (deliver (DoubleCommandKeyListener_on_key_press (dck_key l) now w l) w))
        = (\<not> mgr_recording w \<and> now - dck_last_press_time l < 0.5)"
  by (simp add: DoubleCommandKeyListener_on_key_press_def deliver_def)

theorem C5_double_tap_witness:
  "snd (DoubleCommandKeyListener_on_key_press (Key ''cmd_r'') 100.3
          (RecordingManager_init None (Some 30))
          (DoubleCommandKeyListener_init\<lparr>dck_last_press_time := 100\<rparr>)) = [Invoke Start]
   \<and> snd (DoubleCommandKeyListener_on_key_press (Key ''cmd_r'') 100.5
          (RecordingManager_init None (Some 30))
          (DoubleCommandKeyListener_init\<lparr>dck_last_press_time := 100\<rparr>)) = []
   \<and> snd (DoubleCommandKeyListener_on_key_press (Key ''cmd_r'') 200
          (RecordingManager_start (RecordingManager_init None (Some 30)))
          (DoubleCommandKeyListener_init\<lparr>dck_last_press_time := 100\<rparr>)) = [Invoke Stop]
   \<and> DoubleCommandKeyListener_on_key_press (Key ''cmd_l'') 100.3
          (RecordingManager_init None (Some 30))
          (DoubleCommandKeyListener_init\<lparr>dck_last_press_time := 100\<rparr>)
        = (DoubleCommandKeyListener_init\<lparr>dck_last_press_time := 100\<rparr>, [])"
  using C5_double_tap [of "RecordingManager_init None (Some 30)" "DoubleCommandKeyListener_init\<lparr>dck_last_press_time := 100\<rparr>" "100.3" "Key ''cmd_l''"]
    C5_double_tap [of "RecordingManager_init None (Some 30)" "DoubleCommandKeyListener_init\<lparr>dck_last_press_time := 100\<rparr>" "100.5" "Key ''cmd_l''"]
    C5_double_tap [of "RecordingManager_start (RecordingManager_init None (Some 30))" "DoubleCommandKeyListener_init\<lparr>dck_last_press_time := 100\<rparr>" 200 "Key ''cmd_l''"]
  by (simp add: DoubleCommandKeyListener_init_def RecordingManager_init_def)

text \<open>
  C6. A press makes the listener play the tone and call \<open>start()\<close> exactly when
  the key is the designated one, the listener is not active and the time since the
  previous press of the key is under 0.5 s; the listener is active afterwards
  exactly if it was before or this happened. Every press of the designated key
  stores its time as the time of the previous press, whichever branch was taken,
  and a press of another key changes nothing. So, from a listener that is not
  active: press at \<open>t1\<close>, release, press at \<open>t2\<close> makes the second press start
  the session and leave the listener active exactly if \<open>t2 - t1 < 0.5\<close>, and the
  manager then records; two presses without a release behave the same way unless
  the first press already started. A single press that is not such a quick second
  press calls nothing, and neither does the release that follows it. A release of
  the designated key while active clears the active flag and calls \<open>stop()\<close>,
  after which the manager is idle; a release while not active does nothing.
\<close>

theorem C6_push_to_talk:
  "snd (PushToTalkListener_on_key_press k now l)
     = (if k = ptt_key l \<and> \<not> ptt_active l \<and> now - ptt_last_press_time l < 0.5
        then [Play_tone 300, Invoke Start] else [])
   \<and> ptt_active (fst (PushToTalkListener_on_key_press k now l))
     = (ptt_active l \<or> (k = ptt_key l \<and> now - ptt_last_press_time l < 0.5))
   \<and> (\<not> ptt_active l \<and> \<not> now - ptt_last_press_time l < 0.5 \<longrightarrow>
        snd (PushToTalkListener_on_key_press (ptt_key l) now l) = []
        \<and> snd (PushToTalkListener_on_key_release k'
                 (fst (PushToTalkListener_on_key_press (ptt_key l) now l))) = [])
   \<and> (ptt_active l \<longrightarrow>
        PushToTalkListener_on_key_release (ptt_key l) l
          = (l\<lparr>ptt_active := False\<rparr>, [Play_tone 600, Invoke Stop])
        \<and> \<not> mgr_recording (snd (deliver (PushToTalkListener_on_key_release (ptt_key l) l) w)))
   \<and> (\<not> ptt_active l \<longrightarrow> PushToTalkListener_on_key_release k' l = (l, []))
   \<and> fst (PushToTalkListener_on_key_press k now l)
     = (if k = ptt_key l
        then l\<lparr>ptt_active := ptt_active l \<or> now - ptt_last_press_time l < 0.5,
               ptt_last_press_time := now\<rparr>
        else l)
   \<and> (\<not> ptt_active l \<longrightarrow>
        PushToTalkListener_on_key_press (ptt_key l) t2
          (fst (PushToTalkListener_on_key_release (ptt_key l)
             (fst (PushToTalkListener_on_key_press (ptt_key l) t1 l))))
        = (l\<lparr>ptt_active := t2 - t1 < 0.5, ptt_last_press_time := t2\<rparr>,
           if t2 - t1 < 0.5 then [Play_tone 300, Invoke Start] else []))
   \<and> (\<not> ptt_active l \<and> t2 - t1 < 0.5 \<longrightarrow>
        mgr_recording (snd (deliver
          (PushToTalkListener_on_key_press (ptt_key l) t2
             (fst (PushToTalkListener_on_key_release (ptt_key l)
                (fst (PushToTalkListener_on_key_press (ptt_key l) t1 l))))) w)))
   \<and> (\<not> ptt_active l \<longrightarrow>
        PushToTalkListener_on_key_press (ptt_key l) t2
          (fst (PushToTalkListener_on_key_press (ptt_key l) t1 l))
        = (l\<lparr>ptt_active := t1 - ptt_last_press_time l < 0.5 \<or> t2 - t1 < 0.5,
              ptt_last_press_time := t2\<rparr>,
           if \<not> t1 - ptt_last_press_time l < 0.5 \<and> t2 - t1 < 0.5
           then [Play_tone 300, Invoke Start] else []))"
  by (auto simp add: PushToTalkListener_on_key_press_def PushToTalkListener_on_key_release_def
      deliver_def emit_def)

theorem C6_push_to_talk_witness:
  "PushToTalkListener_on_key_press (Key ''cmd_l'') 100.3
      (PushToTalkListener_init\<lparr>ptt_last_press_time := 100\<rparr>)
     = (\<lparr>ptt_key = Key ''cmd_l'', ptt_active = True, ptt_last_press_time = 100.3\<rparr>,
        [Play_tone 300, Invoke Start])
   \<and> PushToTalkListener_on_key_press (Key ''cmd_l'') 101
      (PushToTalkListener_init\<lparr>ptt_last_press_time := 100\<rparr>)
     = (\<lparr>ptt_key = Key ''cmd_l'', ptt_active = False, ptt_last_press_time = 101\<rparr>, [])
   \<and> PushToTalkListener_on_key_release (Key ''cmd_l'')
      \<lparr>ptt_key = Key ''cmd_l'', ptt_active = False, ptt_last_press_time = 101\<rparr>
     = (\<lparr>ptt_key = Key ''cmd_l'', ptt_active = False, ptt_last_press_time = 101\<rparr>, [])
   \<and> PushToTalkListener_on_key_release (Key ''cmd_l'')
      \<lparr>ptt_key = Key ''cmd_l'', ptt_active = True, ptt_last_press_time = 100.3\<rparr>
     = (\<lparr>ptt_key = Key ''cmd_l'', ptt_active = False, ptt_last_press_time = 100.3\<rparr>,
        [Play_tone 600, Invoke Stop])
   \<and> PushToTalkListener_on_key_press (Key ''cmd_l'') 1000.3
        (fst (PushToTalkListener_on_key_release (Key ''cmd_l'')
           (fst (PushToTalkListener_on_key_press (Key ''cmd_l'') 1000 PushToTalkListener_init))))
     = (\<lparr>ptt_key = Key ''cmd_l'', ptt_active = True, ptt_last_press_time = 1000.3\<rparr>,
        [Play_tone 300, Invoke Start])
   \<and> mgr_recording (snd (deliver
        (PushToTalkListener_on_key_press (Key ''cmd_l'') 1000.3
          (fst (PushToTalkListener_on_key_release (Key ''cmd_l'')
             (fst (PushToTalkListener_on_key_press (Key ''cmd_l'') 1000 PushToTalkListener_init)))))
        (RecordingManager_init None (Some 30))))
   \<and> PushToTalkListener_on_key_press (Key ''cmd_l'') 1002
        (fst (PushToTalkListener_on_key_release (Key ''cmd_l'')
           (fst (PushToTalkListener_on_key_press (Key ''cmd_l'') 1000 PushToTalkListener_init))))
     = (\<lparr>ptt_key = Key ''cmd_l'', ptt_active = False, ptt_last_press_time = 1002\<rparr>, [])"
  using C6_push_to_talk [of "Key ''cmd_l''" "100.3" "PushToTalkListener_init\<lparr>ptt_last_press_time := 100\<rparr>"
      "Key ''cmd_l''" "RecordingManager_init None (Some 30)" 1000 "1000.3"]
    C6_push_to_talk [of "Key ''cmd_l''" 101 "PushToTalkListener_init\<lparr>ptt_last_press_time := 100\<rparr>"
      "Key ''cmd_l''" "RecordingManager_init None (Some 30)" 1000 1002]
    C6_push_to_talk [of "Key ''cmd_l''" 101 "\<lparr>ptt_key = Key ''cmd_l'', ptt_active = True, ptt_last_press_time = 100.3\<rparr>"
      "Key ''cmd_l''" "RecordingManager_init None (Some 30)" 1000 1002]
    C6_push_to_talk [of "Key ''cmd_l''" 1000 PushToTalkListener_init
      "Key ''cmd_l''" "RecordingManager_init None (Some 30)" 1000 "1000.3"]
  by (simp add: PushToTalkListener_init_def PushToTalkListener_on_key_press_def
      PushToTalkListener_on_key_release_def deliver_def)

lemma chord_key1_only:
  "key1 l \<noteq> key2 l \<Longrightarrow> \<not> key2_pressed l
   \<Longrightarrow> set evs \<subseteq> {Press (key1 l), Release (key1 l)}
   \<Longrightarrow> snd (foldl GlobalKeyListener_event (l, acc) evs) = acc"
proof (induction evs arbitrary: l)
  case Nil
  show ?case by simp
next
  case (Cons ev evs)
  from Cons.prems(3) have ev: "ev = Press (key1 l) \<or> ev = Release (key1 l)"
    and rest: "set evs \<subseteq> {Press (key1 l), Release (key1 l)}"
    by auto
  from ev show ?case
  proof
    assume p: "ev = Press (key1 l)"
    have "GlobalKeyListener_event (l, acc) ev = (l\<lparr>key1_pressed := True\<rparr>, acc)"
      using Cons.prems(2) by (simp add: p GlobalKeyListener_on_key_press_def)
    moreover have "snd (foldl GlobalKeyListener_event (l\<lparr>key1_pressed := True\<rparr>, acc) evs) = acc"
      by (rule Cons.IH) (use Cons.prems rest in simp_all)
    ultimately show ?thesis by simp
  next
    assume r: "ev = Release (key1 l)"
    have "GlobalKeyListener_event (l, acc) ev = (l\<lparr>key1_pressed := False\<rparr>, acc)"
      by (simp add: r GlobalKeyListener_on_key_release_def)
    moreover have "snd (foldl GlobalKeyListener_event (l\<lparr>key1_pressed := False\<rparr>, acc) evs) = acc"
      by (rule Cons.IH) (use Cons.prems rest in simp_all)
    ultimately show ?thesis by simp
  qed
qed

text \<open>
  C7. For two different designated keys \<open>a\<close> and \<open>b\<close>, from the initial state:
  no sequence of presses and releases of \<open>a\<close> alone calls \<open>toggle()\<close>; pressing
  \<open>a\<close> then \<open>b\<close> calls \<open>toggle()\<close> exactly once; releasing \<open>b\<close> and
  pressing it again while \<open>a\<close> stays held calls \<open>toggle()\<close> once more.
\<close>

theorem C7_chord:
  assumes "a \<noteq> b"
  shows "(set evs \<subseteq> {Press a, Release a} \<longrightarrow>
            snd (GlobalKeyListener_events (GlobalKeyListener_init a b) evs) = [])
     \<and> snd (GlobalKeyListener_events (GlobalKeyListener_init a b) [Press a, Press b])
         = [Invoke Toggle]
     \<and> snd (GlobalKeyListener_events (GlobalKeyListener_init a b)
              [Press a, Press b, Release b, Press b])
         = [Invoke Toggle, Invoke Toggle]
     \<and> GlobalKeyListener_on_key_press b
          \<lparr>key1 = a, key2 = b, key1_pressed = True, key2_pressed = False\<rparr>
         = (\<lparr>key1 = a, key2 = b, key1_pressed = True, key2_pressed = True\<rparr>, [Invoke Toggle])
     \<and> GlobalKeyListener_on_key_release b
          \<lparr>key1 = a, key2 = b, key1_pressed = True, key2_pressed = True\<rparr>
         = (\<lparr>key1 = a, key2 = b, key1_pressed = True, key2_pressed = False\<rparr>, [])"
proof -
  have alone: "snd (GlobalKeyListener_events (GlobalKeyListener_init a b) evs) = []"
    if "set evs \<subseteq> {Press a, Release a}"
    unfolding GlobalKeyListener_events_def
    by (rule chord_key1_only) (use assms that in \<open>simp_all add: GlobalKeyListener_init_def\<close>)
  have rest: "snd (GlobalKeyListener_events (GlobalKeyListener_init a b) [Press a, Press b])
         = [Invoke Toggle]
     \<and> snd (GlobalKeyListener_events (GlobalKeyListener_init a b)
              [Press a, Press b, Release b, Press b])
         = [Invoke Toggle, Invoke Toggle]
     \<and> GlobalKeyListener_on_key_press b
          \<lparr>key1 = a, key2 = b, key1_pressed = True, key2_pressed = False\<rparr>
         = (\<lparr>key1 = a, key2 = b, key1_pressed = True, key2_pressed = True\<rparr>, [Invoke Toggle])
     \<and> GlobalKeyListener_on_key_release b
          \<lparr>key1 = a, key2 = b, key1_pressed = True, key2_pressed = True\<rparr>
         = (\<lparr>key1 = a, key2 = b, key1_pressed = True, key2_pressed = False\<rparr>, [])"
    using assms
    by (simp add: GlobalKeyListener_events_def GlobalKeyListener_init_def
        GlobalKeyListener_on_key_press_def GlobalKeyListener_on_key_release_def)
  show ?thesis using alone rest by blast
qed

theorem C7_chord_witness:
  "snd (GlobalKeyListener_events (GlobalKeyListener_init (Key ''ctrl'') (Key ''alt''))
          [Press (Key ''ctrl''), Release (Key ''ctrl''), Press (Key ''ctrl''), Press (Key ''ctrl'')]) = []
   \<and> snd (GlobalKeyListener_events (GlobalKeyListener_init (Key ''ctrl'') (Key ''alt''))
          [Press (Key ''ctrl''), Press (Key ''alt'')]) = [Invoke Toggle]
   \<and> snd (GlobalKeyListener_events (GlobalKeyListener_init (Key ''ctrl'') (Key ''alt''))
          [Press (Key ''ctrl''), Press (Key ''alt''), Release (Key ''alt''), Press (Key ''alt'')])
       = [Invoke Toggle, Invoke Toggle]"
proof -
  have ne: "Key ''ctrl'' \<noteq> Key ''alt''" by simp
  show ?thesis
    using C7_chord [OF ne, of "[Press (Key ''ctrl''), Release (Key ''ctrl''), Press (Key ''ctrl''), Press (Key ''ctrl'')]"]
    by simp
qed

text \<open>
  C10. The test for the chord runs on every press: when both flags are set, a
  press of any key calls \<open>toggle()\<close> and flips the manager's flag; for a key that
  is neither designated key the listener itself is unchanged.
\<close>

theorem C10_any_key_toggles:
  "(key1_pressed l \<and> key2_pressed l \<longrightarrow>
      snd (GlobalKeyListener_on_key_press k l) = [Invoke Toggle]
      \<and> mgr_recording (snd (deliver (GlobalKeyListener_on_key_press k l) w))
          = (\<not> mgr_recording w))
   \<and> (key1_pressed l \<and> key2_pressed l \<and> k \<noteq> key1 l \<and> k \<noteq> key2 l \<longrightarrow>
      GlobalKeyListener_on_key_press k l = (l, [Invoke Toggle]))"
  by (simp add: GlobalKeyListener_on_key_press_def deliver_def RecordingManager_toggle_def)

theorem C10_any_key_toggles_witness:
  "snd (GlobalKeyListener_events (GlobalKeyListener_init (Key ''ctrl'') (Key ''alt''))
          [Press (Key ''ctrl''), Press (Key ''alt''), Press (KeyCode ''x''), Release (KeyCode ''x''),
           Press (KeyCode ''y'')])
     = [Invoke Toggle, Invoke Toggle, Invoke Toggle]
   \<and> GlobalKeyListener_on_key_press (KeyCode ''x'')
        \<lparr>key1 = Key ''ctrl'', key2 = Key ''alt'', key1_pressed = True, key2_pressed = True\<rparr>
     = (\<lparr>key1 = Key ''ctrl'', key2 = Key ''alt'', key1_pressed = True, key2_pressed = True\<rparr>,
        [Invoke Toggle])"
  using C10_any_key_toggles [of "\<lparr>key1 = Key ''ctrl'', key2 = Key ''alt'', key1_pressed = True, key2_pressed = True\<rparr>"
      "KeyCode ''x''" "RecordingManager_init None (Some 30)"]
  by (simp add: GlobalKeyListener_events_def GlobalKeyListener_init_def
      GlobalKeyListener_on_key_press_def GlobalKeyListener_on_key_release_def)

section \<open>Threads and the session flag\<close>

lemmas world_defs = run_def RecordingManager_init_def RecordingManager_start_def
  RecordingManager_stop_def RecordingManager_toggle_def Recorder_start_def Recorder_stop_def
  timer_start_def timer_cancel_def timer_fire_def emit_def thread_step_def set_pc_def
  env_ok_def env_open_fails_def env_read_fails_def env_type_fails_def Let_def

text \<open>
  C2, as stated, fails. With the default maximal time of 30 s: \<open>start()\<close>, then
  the capture thread cannot open the input stream. The thread ends by the exception,
  nothing is printed for it, and the manager's flag is still true. Without a maximal
  time: \<open>start()\<close>, the stream opens, the first read raises. The thread ends by
  the exception, the manager's flag is still true and no timer exists that would
  call \<open>stop()\<close>.
\<close>

theorem C2_capture_error_stays_recording:
  "mgr_recording (run (RecordingManager_init None (Some 30))
       [Calls Start, Thread_runs 0 env_open_fails])
   \<and> threads (run (RecordingManager_init None (Some 30))
       [Calls Start, Thread_runs 0 env_open_fails])
       = [(None, Raised (Exception ''OSError: no input device''))]
   \<and> out (run (RecordingManager_init None (Some 30))
       [Calls Start, Thread_runs 0 env_open_fails]) = [Print Listening]
   \<and> mgr_recording (run (RecordingManager_init None None)
       [Calls Start, Thread_runs 0 env_ok, Thread_runs 0 env_read_fails])
   \<and> threads (run (RecordingManager_init None None)
       [Calls Start, Thread_runs 0 env_ok, Thread_runs 0 env_read_fails])
       = [(None, Raised (Exception ''OSError: input overflowed''))]
   \<and> timers (run (RecordingManager_init None None)
       [Calls Start, Thread_runs 0 env_ok, Thread_runs 0 env_read_fails]) = []"
  by (simp add: world_defs)

lemma mgr_recording_thread_step:
  "mgr_recording (thread_step tid env w) = mgr_recording w"
  by (simp add: thread_step_def set_pc_def emit_def Let_def
      split: prod.split pc.split option.split sum.split)

lemma mgr_recording_timer_fire:
  "i < length (timers w) \<Longrightarrow> snd (timers w ! i) = Armed \<Longrightarrow> \<not> mgr_recording (timer_fire i w)"
  by (simp add: timer_fire_def)

lemma type_transcription_fails:
  assumes "k < length s" "\<forall>j < k. kb j (s ! j) = None" "kb k (s ! k) = Some e"
  shows "type_transcription kb s = keystrokes (take k s) @ [Print (Error_typing e)]"
proof -
  have "type_loop kb 0 s = (keystrokes (take k s), Some e)"
    by (rule type_loop_fails) (use assms in simp_all)
  moreover have "s \<noteq> []" using assms(1) by auto
  ultimately show ?thesis by (simp add: type_transcription_def)
qed

text \<open>
  C2, amended. No step of the pipeline thread writes the manager's flag: after any
  step, an exit by an exception included, the flag is what it was before. The
  session leaves Recording only through \<open>stop()\<close>, called by a listener or by the
  timer when it fires, after which the flag is false. An error of the keyboard is
  caught: once the audio is assembled and the model has answered, the function
  returns normally, and the last thing it does after a keyboard error is to print
  that error.
\<close>

theorem C2_pipeline_keeps_flag:
  "mgr_recording (thread_step tid env w) = mgr_recording w
   \<and> \<not> mgr_recording (RecordingManager_stop w)
   \<and> (i < length (timers w) \<and> snd (timers w ! i) = Armed \<longrightarrow> \<not> mgr_recording (timer_fire i w))
   \<and> (audio_data_fp32 frames = Inr a \<and> model env' a language = Inr r \<longrightarrow>
        snd (record_tail env' language frames) = Returned)
   \<and> (k < length s \<and> (\<forall>j < k. keyboard env' j (s ! j) = None)
          \<and> keyboard env' k (s ! k) = Some e \<longrightarrow>
        last (type_transcription (keyboard env') s) = Print (Error_typing e))"
proof -
  have "snd (record_tail env' language frames) = Returned"
    if "audio_data_fp32 frames = Inr a" "model env' a language = Inr r"
    using record_tail_typed [OF that] by simp
  moreover have "last (type_transcription (keyboard env') s) = Print (Error_typing e)"
    if "k < length s" "\<forall>j < k. keyboard env' j (s ! j) = None" "keyboard env' k (s ! k) = Some e"
    using type_transcription_fails [of k s "keyboard env'" e] that by simp
  ultimately show ?thesis
    using mgr_recording_thread_step [of tid env w] mgr_recording_timer_fire [of i w]
    by simp
qed

theorem C2_pipeline_keeps_flag_witness:
  "mgr_recording (thread_step 0 env_read_fails
       (run (RecordingManager_init None (Some 30)) [Calls Start, Thread_runs 0 env_ok]))
   \<and> threads (thread_step 0 env_read_fails
       (run (RecordingManager_init None (Some 30)) [Calls Start, Thread_runs 0 env_ok]))
       = [(None, Raised (Exception ''OSError: input overflowed''))]
   \<and> \<not> mgr_recording (timer_fire 0 (thread_step 0 env_read_fails
       (run (RecordingManager_init None (Some 30)) [Calls Start, Thread_runs 0 env_ok])))
   \<and> record_tail env_type_fails None [pcm_bytes [0]]
       = ([Mic_close, Print (Transcription [104, 105]), Key_type 104, Sleep 0.0025,
           Print (Error_typing (Exception ''InvalidCharacterException''))], Returned)"
  using C2_pipeline_keeps_flag [of 0 env_read_fails
      "run (RecordingManager_init None (Some 30)) [Calls Start, Thread_runs 0 env_ok]"
      0 "[pcm_bytes [0]]" "[0]" env_type_fails None "[32, 104, 105]" 1 "[104, 105]"
      "Exception ''InvalidCharacterException''"]
  by (simp add: world_defs record_tail_def audio_data_fp32_def pcm_bytes_def sample_bytes_def
      int16_le_def to_fp32_def SpeechTranscriber_transcribe_def lstrip_def py_isspace_def
      type_transcription_def)

text \<open>
  C1. In \<open>RecordingManager.start\<close> the manager's flag is set before the thread
  and the timer are started: right after the call the flag is true, and a second
  \<open>start()\<close> starts no second thread. The recorder's
  flag is not: right after the call the capture thread exists and
  \<open>Recorder.recording\<close> is still false, since the thread sets it when it first
  runs. So \<open>start()\<close>, \<open>stop()\<close>, then the first step of the thread leave the
  manager idle, its timer cancelled, the recorder's flag true and the thread in the
  capture loop; after a second \<open>start()\<close> two threads are in the capture loop at
  once.
\<close>

theorem C1_recorder_flag_after_spawn:
  "threads (RecordingManager_start (RecordingManager_init None (Some 30))) = [(None, Entry)]
   \<and> \<not> rec_recording (RecordingManager_start (RecordingManager_init None (Some 30)))
   \<and> mgr_recording (RecordingManager_start (RecordingManager_init None (Some 30)))
   \<and> threads (run (RecordingManager_init None (Some 30)) [Calls Start, Calls Start])
       = [(None, Entry)]
   \<and> \<not> mgr_recording (run (RecordingManager_init None (Some 30))
        [Calls Start, Calls Stop, Thread_runs 0 env_ok])
   \<and> rec_recording (run (RecordingManager_init None (Some 30))
        [Calls Start, Calls Stop, Thread_runs 0 env_ok])
   \<and> threads (run (RecordingManager_init None (Some 30))
        [Calls Start, Calls Stop, Thread_runs 0 env_ok]) = [(None, Capture [])]
   \<and> timers (run (RecordingManager_init None (Some 30))
        [Calls Start, Calls Stop, Thread_runs 0 env_ok]) = [(30, Cancelled)]
   \<and> capturing (run (RecordingManager_init None (Some 30))
        [Calls Start, Calls Stop, Thread_runs 0 env_ok, Calls Start, Thread_runs 1 env_ok,
         Thread_runs 0 env_ok, Thread_runs 1 env_ok]) = [0, 1]"
  by (simp add: world_defs capturing_def upt_rec pcm_bytes_def sample_bytes_def)

end
